theory Spec2Isabelle
  imports Complex_Main "HOL-Library.Multiset"
begin

section \<open>The notebook 03_DNN_practical: data model\<close>

text \<open>
  The notebook reads a dataframe with the columns \<open>Elements\<close> (a list of element names
  per sample) and \<open>Spectra\<close> (a list of numbers per sample). The notebook's own code does
  no arithmetic on the spectrum values, so their type is a parameter \<open>'v\<close>. A dataframe
  is the list of its rows, in the order of its default integer index.
\<close>

record 'v sample =
  Elements :: "string list"
  Spectra :: "'v list"

type_synonym 'v dataframe = "'v sample list"

text \<open>The exceptions of the libraries that the notebook's cells can meet.\<close>

datatype error = FileNotFoundError | KeyError | ValueError | IndexError

subsection \<open>NumPy helpers used by the cells\<close>

text \<open>
  \<open>np.where(mask)[0]\<close>: the positions at which the mask holds, in increasing order.
\<close>

definition np_where :: "('a \<Rightarrow> bool) \<Rightarrow> 'a list \<Rightarrow> nat list" where
  "np_where P xs = filter (\<lambda>i. P (xs ! i)) [0..<length xs]"

text \<open>
  \<open>np.array(rows)\<close> on a list of rows. Rows of one common length give a two-dimensional
  array, kept here as the list of its rows. Rows of unequal length are refused by the
  library with \<open>ValueError\<close> (current NumPy; releases before 1.24 built a one-dimensional
  array of list objects instead).
\<close>

definition rectangular :: "'a list list \<Rightarrow> bool" where
  "rectangular rows = list_all (\<lambda>r. length r = length (hd rows)) rows"

definition np_array :: "'a list list \<Rightarrow> error + 'a list list" where
  "np_array rows = (if rectangular rows then Inr rows else Inl ValueError)"

text \<open>
  \<open>a[ids]\<close> with an integer index array \<open>ids\<close> (non-negative here): the entries of \<open>a\<close> at
  those positions, in the order of \<open>ids\<close>; an index beyond the end raises \<open>IndexError\<close>.
\<close>

definition fancy_index :: "'a list \<Rightarrow> nat list \<Rightarrow> error + 'a list" where
  "fancy_index a ids =
     (if list_all (\<lambda>j. j < length a) ids then Inr (map (\<lambda>j. a ! j) ids)
      else Inl IndexError)"

subsection \<open>Cell 11: extraction of the training data\<close>

text \<open>
  \<^verbatim>\<open>train_x = np.array(df['Spectra'].to_list())[:50000]\<close>
  \<^verbatim>\<open>train_y = np.array(['Ag' in elements for elements in df['Elements']]).astype(int)[:50000]\<close>
\<close>

definition train_x :: "'v dataframe \<Rightarrow> error + 'v list list" where
  "train_x df =
     (case np_array (map Spectra df) of
        Inl e \<Rightarrow> Inl e
      | Inr a \<Rightarrow> Inr (take 50000 a))"

definition train_y :: "'v dataframe \<Rightarrow> int list" where
  "train_y df = take 50000 (map (\<lambda>s. if ''Ag'' \<in> set (Elements s) then 1 else 0) df)"

text \<open>The cell as a whole: the first failing statement aborts it.\<close>

definition extract_training_data :: "'v dataframe \<Rightarrow> error + ('v list list \<times> int list)" where
  "extract_training_data df =
     (case train_x df of
        Inl e \<Rightarrow> Inl e
      | Inr xs \<Rightarrow> Inr (xs, train_y df))"

subsection \<open>Cell 1: the global random generator of NumPy\<close>

text \<open>
  The generator is the library's, not the notebook's: it is a parameter. \<open>seed_state n\<close> is
  the generator state that \<^verbatim>\<open>np.random.seed(n)\<close> installs, and \<open>next_below g n\<close> is one
  bounded integer draw from state \<open>g\<close> together with the state after it. The library
  promises a draw below the bound; \<open>randint\<close> writes that promise out for any parameter.
\<close>

record 'g bitgen =
  seed_state :: "nat \<Rightarrow> 'g"
  next_below :: "'g \<Rightarrow> nat \<Rightarrow> nat \<times> 'g"

definition randint :: "'g bitgen \<Rightarrow> nat \<Rightarrow> 'g \<Rightarrow> nat \<times> 'g" where
  "randint G n g = (case next_below G g n of (v, g') \<Rightarrow> (v mod n, g'))"

fun randints :: "'g bitgen \<Rightarrow> nat \<Rightarrow> nat \<Rightarrow> 'g \<Rightarrow> nat list \<times> 'g" where
  "randints G n 0 g = ([], g)"
| "randints G n (Suc k) g =
     (case randint G n g of (v, g1) \<Rightarrow>
        (case randints G n k g1 of (vs, g2) \<Rightarrow> (v # vs, g2)))"

text \<open>
  \<^verbatim>\<open>np.random.choice(a, size)\<close> with the default \<open>replace=True\<close>: \<open>size\<close> positions drawn
  independently below \<open>len(a)\<close>, and the entries of \<open>a\<close> there. An empty \<open>a\<close> with a
  non-zero \<open>size\<close> raises \<open>ValueError\<close>.
\<close>

definition np_random_choice :: "'g bitgen \<Rightarrow> 'a list \<Rightarrow> nat \<Rightarrow> 'g \<Rightarrow> error + ('a list \<times> 'g)" where
  "np_random_choice G a sz g =
     (if a = [] \<and> sz \<noteq> 0 then Inl ValueError
      else (case randints G (length a) sz g of
              (idx, g') \<Rightarrow> Inr (map (\<lambda>i. a ! i) idx, g')))"

text \<open>
  \<^verbatim>\<open>np.random.shuffle(x)\<close> on a one-dimensional array: for \<open>i\<close> from \<open>len(x) - 1\<close> down to
  1, draw \<open>j\<close> in \<open>[0, i]\<close> and exchange \<open>x[i]\<close> and \<open>x[j]\<close>. The array is changed in place;
  the model returns it.
\<close>

definition swap :: "'a list \<Rightarrow> nat \<Rightarrow> nat \<Rightarrow> 'a list" where
  "swap xs i j = xs[i := xs ! j, j := xs ! i]"

fun shuffle_from :: "'g bitgen \<Rightarrow> nat \<Rightarrow> 'a list \<Rightarrow> 'g \<Rightarrow> 'a list \<times> 'g" where
  "shuffle_from G 0 xs g = (xs, g)"
| "shuffle_from G (Suc k) xs g =
     (case randint G (Suc (Suc k)) g of (j, g') \<Rightarrow>
        shuffle_from G k (swap xs (Suc k) j) g')"

definition np_random_shuffle :: "'g bitgen \<Rightarrow> 'a list \<Rightarrow> 'g \<Rightarrow> 'a list \<times> 'g" where
  "np_random_shuffle G xs g = shuffle_from G (length xs - 1) xs g"

subsection \<open>Cell 25: downsampling of the majority class\<close>

text \<open>
  \<^verbatim>\<open>id_no_Ag = np.where(train_y == 0)[0]\<close>
  \<^verbatim>\<open>id_with_Ag = np.where(train_y == 1)[0]\<close>
  \<^verbatim>\<open>id_no_Ag_downsample = np.random.choice(id_no_Ag, len(id_with_Ag))\<close>
  \<^verbatim>\<open>id_downsample = np.concatenate((id_with_Ag, id_no_Ag_downsample))\<close>
  \<^verbatim>\<open>np.random.shuffle(id_downsample)\<close>
  \<^verbatim>\<open>train_x_balanced = train_x[id_downsample]\<close>
  \<^verbatim>\<open>train_y_balanced = train_y[id_downsample]\<close>
\<close>

definition id_no_Ag :: "int list \<Rightarrow> nat list" where
  "id_no_Ag ys = np_where (\<lambda>y. y = 0) ys"

definition id_with_Ag :: "int list \<Rightarrow> nat list" where
  "id_with_Ag ys = np_where (\<lambda>y. y = 1) ys"

record 'v balanced =
  id_no_Ag_downsample :: "nat list"
  id_downsample :: "nat list"
  train_x_balanced :: "'v list list"
  train_y_balanced :: "int list"

definition downsample ::
  "'g bitgen \<Rightarrow> 'v list list \<Rightarrow> int list \<Rightarrow> 'g \<Rightarrow> error + ('v balanced \<times> 'g)" where
  "downsample G xs ys g =
     (case np_random_choice G (id_no_Ag ys) (length (id_with_Ag ys)) g of
        Inl e \<Rightarrow> Inl e
      | Inr (chosen, g1) \<Rightarrow>
          (case np_random_shuffle G (id_with_Ag ys @ chosen) g1 of
             (ids, g2) \<Rightarrow>
               (case fancy_index xs ids of
                  Inl e \<Rightarrow> Inl e
                | Inr xb \<Rightarrow>
                    (case fancy_index ys ids of
                       Inl e \<Rightarrow> Inl e
                     | Inr yb \<Rightarrow>
                         Inr (\<lparr>id_no_Ag_downsample = chosen, id_downsample = ids,
                               train_x_balanced = xb, train_y_balanced = yb\<rparr>, g2)))))"

text \<open>Cells 11 and 25 in sequence: from the dataframe to the balanced training set.\<close>

definition preprocess :: "'g bitgen \<Rightarrow> 'v dataframe \<Rightarrow> 'g \<Rightarrow> error + ('v balanced \<times> 'g)" where
  "preprocess G df g =
     (case extract_training_data df of
        Inl e \<Rightarrow> Inl e
      | Inr (xs, ys) \<Rightarrow> downsample G xs ys g)"

subsection \<open>Cells 3 and 7: locating and reading the data file\<close>

text \<open>
  Cell 3 tries to import and authenticate with \<open>google.colab\<close>; a bare \<open>except\<close> falls back
  to the local path. The flag says whether the \<open>try\<close> block ran to its end.
\<close>

definition colab_data_path :: string where
  "colab_data_path = ''/content/sciml-workshop-data/''"

definition data_path :: "bool \<Rightarrow> string" where
  "data_path colab = (if colab then colab_data_path else ''./sciml-workshop-data/'')"

text \<open>
  \<^verbatim>\<open>df = pd.read_pickle(data_path + 'muon-data/ag-muon-data-tight.pkl')\<close>
  The library's reader is a parameter: for each path, the dataframe it returns or the
  exception it raises. The cell then prints \<^verbatim>\<open>len(df['Spectra'][0])\<close>, which raises
  \<open>KeyError\<close> on a dataframe without rows.
\<close>

type_synonym 'v reader = "string \<Rightarrow> error + 'v dataframe"

definition read_data :: "'v reader \<Rightarrow> bool \<Rightarrow> error + 'v dataframe" where
  "read_data pd_read_pickle colab =
     (case pd_read_pickle (data_path colab @ ''muon-data/ag-muon-data-tight.pkl'') of
        Inl e \<Rightarrow> Inl e
      | Inr df \<Rightarrow> (case df of [] \<Rightarrow> Inl KeyError | _ # _ \<Rightarrow> Inr df))"

subsection \<open>Cell 9: plots of randomly chosen spectra\<close>

text \<open>
  For each of three conditions the cell draws \<open>nplot\<close> sample indices with
  \<^verbatim>\<open>np.random.choice(cond[1], nplot)\<close> and plots \<^verbatim>\<open>df['Spectra'][idata][0:150]\<close>. The plots
  are not modelled; the draws advance the generator, and a condition that no sample
  meets raises \<open>ValueError\<close>.
\<close>

definition conditions :: "'v dataframe \<Rightarrow> (string \<times> nat list) list" where
  "conditions df =
     [(''no Ag'', np_where (\<lambda>s. ''Ag'' \<notin> set (Elements s)) df),
      (''pure Ag'', np_where (\<lambda>s. [''Ag''] = Elements s) df),
      (''Ag-Si binary'', np_where (\<lambda>s. [''Ag'', ''Si''] = Elements s) df)]"

definition nplot :: nat where
  "nplot = 4"

fun plot_conditions :: "'g bitgen \<Rightarrow> (string \<times> nat list) list \<Rightarrow> 'g \<Rightarrow> error + 'g" where
  "plot_conditions G [] g = Inr g"
| "plot_conditions G (cond # rest) g =
     (case np_random_choice G (snd cond) nplot g of
        Inl e \<Rightarrow> Inl e
      | Inr (idata, g') \<Rightarrow> plot_conditions G rest g')"

subsection \<open>The code cells in sequence\<close>

text \<open>
  The code cells that the notebook ships with content, run from top to bottom; the first
  exception ends the run. \<open>g0\<close> is the state the global generator has when the kernel
  starts; cell 1 replaces it by \<^verbatim>\<open>np.random.seed(0)\<close>. The cells that only draw
  histograms of the labels, the definition of \<open>plot_history\<close> and the shell cell that
  mounts the storage bucket have no part in the result and are left out.
\<close>

definition notebook ::
  "'g bitgen \<Rightarrow> 'v reader \<Rightarrow> bool \<Rightarrow> 'g \<Rightarrow> error + ('v balanced \<times> 'g)" where
  "notebook G pd_read_pickle colab g0 =
     (let g = seed_state G 0 in
      case read_data pd_read_pickle colab of
        Inl e \<Rightarrow> Inl e
      | Inr df \<Rightarrow>
          (case plot_conditions G (conditions df) g of
             Inl e \<Rightarrow> Inl e
           | Inr g1 \<Rightarrow> preprocess G df g1))"

subsection \<open>The network definitions of the suggested answers\<close>

text \<open>
  The notebook gives its Keras code as suggested answers in markdown cells. A model is
  the list of the layers added to \<^verbatim>\<open>Sequential()\<close>, in order. \<open>Dense u d a\<close> is
  \<^verbatim>\<open>Dense(u, input_dim=d, activation=a)\<close>, with \<open>None\<close> for an absent \<open>input_dim\<close>.
\<close>

datatype activation = relu | sigmoid

datatype layer = Dense nat "nat option" activation | Dropout real

definition model :: "layer list" where
  "model = [Dense 64 (Some 1000) relu, Dense 32 None relu, Dense 16 None relu,
            Dense 8 None relu, Dense 1 None sigmoid]"

definition model_balanced :: "layer list" where
  "model_balanced = [Dense 64 (Some 1000) relu, Dense 32 None relu, Dense 16 None relu,
                     Dense 8 None relu, Dense 1 None sigmoid]"

definition model_dropout :: "layer list" where
  "model_dropout = [Dense 64 (Some 1000) relu, Dropout (1 / 1000), Dense 32 None relu,
                    Dense 16 None relu, Dense 8 None relu, Dense 1 None sigmoid]"

definition model_early_stopping :: "layer list" where
  "model_early_stopping = [Dense 64 (Some 1000) relu, Dropout (1 / 1000), Dense 32 None relu,
                           Dense 16 None relu, Dense 8 None relu, Dense 1 None sigmoid]"

fun is_Dense :: "layer \<Rightarrow> bool" where
  "is_Dense (Dense u d a) = True"
| "is_Dense (Dropout r) = False"

fun units :: "layer \<Rightarrow> nat option" where
  "units (Dense u d a) = Some u"
| "units (Dropout r) = None"

fun activation_of :: "layer \<Rightarrow> activation option" where
  "activation_of (Dense u d a) = Some a"
| "activation_of (Dropout r) = None"

text \<open>The input width that the first layer of a model declares.\<close>

fun input_dim :: "layer list \<Rightarrow> nat option" where
  "input_dim (Dense u d a # rest) = d"
| "input_dim other = None"

subsection \<open>The early-stopping callback of the last suggested answer\<close>

text \<open>
  \<^verbatim>\<open>callback = tf.keras.callbacks.EarlyStopping(monitor='loss', patience=50,\<close>
  \<^verbatim>\<open>                                            restore_best_weights=True)\<close>
\<close>

record early_stopping =
  monitor :: string
  patience :: nat
  restore_best_weights :: bool

definition callback :: early_stopping where
  "callback = \<lparr>monitor = ''loss'', patience = 50, restore_best_weights = True\<rparr>"

text \<open>
  The training history names a metric measured on the validation split by the prefix
  \<open>val_\<close>, as \<open>plot_history\<close> reads it: \<^verbatim>\<open>history['val_' + acc_str]\<close>, \<^verbatim>\<open>history['val_loss']\<close>
  beside \<^verbatim>\<open>history[acc_str]\<close> and \<^verbatim>\<open>history['loss']\<close> for the training data.
\<close>

definition is_validation_metric :: "string \<Rightarrow> bool" where
  "is_validation_metric name = (take 4 name = ''val_'')"

subsection \<open>The library's early-stopping rule\<close>

text \<open>
  What \<open>fit\<close> does with such a callback, with the defaults the notebook leaves in place
  (\<open>min_delta = 0\<close>, no baseline, and for a monitored name without \<open>acc\<close> a search for a
  decrease): at the end of each epoch the callback reads the monitored entry of the
  epoch's logs; a value below the best so far becomes the best and resets \<open>wait\<close>;
  otherwise \<open>wait\<close> grows by one, and training stops once \<open>wait\<close> reaches \<open>patience\<close>.
  \<open>epochs_run\<close> counts the epochs trained, given the logs the epochs would report.
\<close>

type_synonym logs = "(string \<times> real) list"

record stopper =
  wait :: nat
  best :: "real option"
  stop_training :: bool

definition on_train_begin :: stopper where
  "on_train_begin = \<lparr>wait = 0, best = None, stop_training = False\<rparr>"

definition is_improvement :: "real \<Rightarrow> real option \<Rightarrow> bool" where
  "is_improvement current b = (case b of None \<Rightarrow> True | Some v \<Rightarrow> current < v)"

definition on_epoch_end :: "early_stopping \<Rightarrow> stopper \<Rightarrow> logs \<Rightarrow> stopper" where
  "on_epoch_end cb st lg =
     (case map_of lg (monitor cb) of
        None \<Rightarrow> st
      | Some current \<Rightarrow>
          if is_improvement current (best st) then st\<lparr>wait := 0, best := Some current\<rparr>
          else if patience cb \<le> wait st + 1 then st\<lparr>wait := wait st + 1, stop_training := True\<rparr>
          else st\<lparr>wait := wait st + 1\<rparr>)"

fun epochs_run :: "early_stopping \<Rightarrow> stopper \<Rightarrow> logs list \<Rightarrow> nat" where
  "epochs_run cb st [] = 0"
| "epochs_run cb st (lg # rest) =
     (let st' = on_epoch_end cb st lg
      in if stop_training st' then 1 else Suc (epochs_run cb st' rest))"

text \<open>
  Sixty epochs in which the training loss falls at every epoch while the validation loss
  stays where it was after the first epoch.
\<close>

definition stagnating_history :: "logs list" where
  "stagnating_history = map (\<lambda>k. [(''loss'', (60 - real k) / 60), (''val_loss'', 1)]) [0..<60]"

text \<open>
  A generator for running the cells on concrete inputs: its state is a counter and each
  draw returns the counter.
\<close>

definition counter_gen :: "nat bitgen" where
  "counter_gen = \<lparr>seed_state = (\<lambda>n. n), next_below = (\<lambda>g n. (g, Suc g))\<rparr>"

subsection \<open>The documented input format\<close>

text \<open>
  The notebook's prose describes the dataset: each spectrum is a series of 1000 positive
  reals. The predicate states that format; no cell evaluates it.
\<close>

definition well_formed_input :: "real dataframe \<Rightarrow> bool" where
  "well_formed_input df =
     list_all (\<lambda>s. length (Spectra s) = 1000 \<and> list_all (\<lambda>v. 0 < v) (Spectra s)) df"

subsection \<open>A small dataset for running the cells\<close>

definition df3 :: "int dataframe" where
  "df3 = [\<lparr>Elements = [''Si''], Spectra = [10, 11]\<rparr>,
          \<lparr>Elements = [''Ag''], Spectra = [20, 21]\<rparr>,
          \<lparr>Elements = [''Ag'', ''Si''], Spectra = [30, 31]\<rparr>]"

definition df_ragged :: "int dataframe" where
  "df_ragged = [\<lparr>Elements = [''Si''], Spectra = [10, 11]\<rparr>,
                \<lparr>Elements = [''Ag''], Spectra = [20]\<rparr>]"

text \<open>A reader that finds the file under the local data path only, and one for Colab.\<close>

definition reader_local :: "int reader" where
  "reader_local p = (if p = ''./sciml-workshop-data/muon-data/ag-muon-data-tight.pkl''
                     then Inr df3 else Inl FileNotFoundError)"

definition reader_colab :: "int reader" where
  "reader_colab p = (if p = ''/content/sciml-workshop-data/muon-data/ag-muon-data-tight.pkl''
                     then Inr df3 else Inl FileNotFoundError)"

definition balanced3 :: "int balanced" where
  "balanced3 = \<lparr>id_no_Ag_downsample = [0, 0], id_downsample = [2, 0, 1, 0],
                 train_x_balanced = [[30, 31], [10, 11], [20, 21], [10, 11]],
                 train_y_balanced = [1, 0, 1, 0]\<rparr>"

section \<open>Facts about the NumPy operations\<close>

lemma randint_less: "0 < n \<Longrightarrow> fst (randint G n g) < n"
  by (simp add: randint_def split: prod.splits)

lemma randints_length: "length (fst (randints G n k g)) = k"
proof (induction k arbitrary: g)
  case 0
  then show ?case by simp
next
  case (Suc k)
  obtain w g1 where w: "randint G n g = (w, g1)" by (cases "randint G n g")
  obtain ws g2 where ws: "randints G n k g1 = (ws, g2)" by (cases "randints G n k g1")
  from Suc.IH [of g1] w ws show ?case by simp
qed

lemma randints_bound: "0 < n \<Longrightarrow> v \<in> set (fst (randints G n k g)) \<Longrightarrow> v < n"
proof (induction k arbitrary: g)
  case 0
  then show ?case by simp
next
  case (Suc k)
  obtain w g1 where w: "randint G n g = (w, g1)" by (cases "randint G n g")
  obtain ws g2 where ws: "randints G n k g1 = (ws, g2)" by (cases "randints G n k g1")
  from Suc.prems(2) w ws have "v = w \<or> v \<in> set ws" by simp
  then show ?case
  proof
    assume "v = w"
    with randint_less [OF Suc.prems(1), of G g] w show ?thesis by simp
  next
    assume "v \<in> set ws"
    with Suc.IH [OF Suc.prems(1), of g1] ws show ?thesis by simp
  qed
qed

lemma np_random_choice_Inr:
  assumes "np_random_choice G a sz g = Inr (c, g')"
  shows "length c = sz \<and> set c \<subseteq> set a"
proof (cases "a = [] \<and> sz \<noteq> 0")
  case True
  with assms show ?thesis by (simp add: np_random_choice_def)
next
  case False
  obtain idx g1 where r: "randints G (length a) sz g = (idx, g1)"
    by (cases "randints G (length a) sz g")
  from assms False r have c: "c = map (\<lambda>i. a ! i) idx"
    by (auto simp: np_random_choice_def)
  have len: "length idx = sz" using randints_length [of G "length a" sz g] r by simp
  show ?thesis
  proof (cases "a = []")
    case True
    with False len c show ?thesis by simp
  next
    case False
    then have "0 < length a" by simp
    from randints_bound [OF this, of _ G sz g] r have "\<forall>v \<in> set idx. v < length a" by simp
    with c len show ?thesis by auto
  qed
qed

lemma np_random_choice_succeeds:
  "a \<noteq> [] \<or> sz = 0 \<Longrightarrow> \<exists>c g'. np_random_choice G a sz g = Inr (c, g')"
  by (auto simp: np_random_choice_def split: prod.splits)

lemma mset_swap_list: "i < length xs \<Longrightarrow> j < length xs \<Longrightarrow> mset (swap xs i j) = mset xs"
  unfolding swap_def by (rule mset_swap)

lemma length_swap: "length (swap xs i j) = length xs"
  by (simp add: swap_def)

lemma shuffle_from_mset: "k < length xs \<Longrightarrow> mset (fst (shuffle_from G k xs g)) = mset xs"
proof (induction k arbitrary: xs g)
  case 0
  then show ?case by simp
next
  case (Suc k)
  obtain j g1 where j: "randint G (Suc (Suc k)) g = (j, g1)"
    by (cases "randint G (Suc (Suc k)) g")
  have "j < Suc (Suc k)" using randint_less [of "Suc (Suc k)" G g] j by simp
  with Suc.prems have jl: "j < length xs" by simp
  have "k < length (swap xs (Suc k) j)" using Suc.prems by (simp add: length_swap)
  from Suc.IH [OF this, of g1] j mset_swap_list [OF Suc.prems jl]
  show ?case by simp
qed

lemma np_random_shuffle_mset: "mset (fst (np_random_shuffle G xs g)) = mset xs"
proof (cases xs)
  case Nil
  then show ?thesis by (simp add: np_random_shuffle_def)
next
  case (Cons x ys)
  then have "length xs - 1 < length xs" by simp
  then show ?thesis unfolding np_random_shuffle_def by (rule shuffle_from_mset)
qed

lemma set_np_where: "set (np_where P xs) = {i. i < length xs \<and> P (xs ! i)}"
  by (auto simp: np_where_def)


lemma sorted_np_where: "sorted (np_where P xs)"
  by (simp add: np_where_def sorted_wrt_filter)

lemma length_np_where: "length (np_where P xs) = length (filter P xs)"
proof (induction xs rule: rev_induct)
  case Nil
  then show ?case by (simp add: np_where_def)
next
  case (snoc x xs)
  have "filter (\<lambda>i. P ((xs @ [x]) ! i)) [0..<length xs] = filter (\<lambda>i. P (xs ! i)) [0..<length xs]"
    by (rule filter_cong) (auto simp: nth_append)
  with snoc show ?case by (simp add: np_where_def)
qed

section \<open>Extraction of the training data\<close>

lemma np_array_Inr: "np_array rows = Inr a \<Longrightarrow> a = rows"
  by (simp add: np_array_def split: if_splits)

lemma train_x_Inr: "train_x df = Inr xs \<Longrightarrow> xs = take 50000 (map Spectra df)"
  by (auto simp: train_x_def dest: np_array_Inr split: sum.splits)

lemma length_train_y: "length (train_y df) = min 50000 (length df)"
  by (simp add: train_y_def min.commute)

lemma extract_training_data_Inr:
  assumes "extract_training_data df = Inr (xs, ys)"
  shows "xs = take 50000 (map Spectra df)" and "ys = train_y df" and "length xs = length ys"
proof -
  from assms have x: "train_x df = Inr xs" and y: "ys = train_y df"
    by (auto simp: extract_training_data_def split: sum.splits)
  from train_x_Inr [OF x] show "xs = take 50000 (map Spectra df)" .
  from y show "ys = train_y df" .
  from train_x_Inr [OF x] y show "length xs = length ys"
    by (simp add: train_y_def)
qed

lemma rectangular_common_length:
  "list_all (\<lambda>s. length (Spectra s) = n) df \<Longrightarrow> rectangular (map Spectra df)"
  by (cases df) (auto simp: rectangular_def list_all_iff)

lemma extract_training_data_succeeds:
  "list_all (\<lambda>s. length (Spectra s) = n) df \<Longrightarrow>
   extract_training_data df = Inr (take 50000 (map Spectra df), train_y df)"
  by (simp add: extract_training_data_def train_x_def np_array_def rectangular_common_length)

text \<open>
  C3: for every row among the first 50000 of the dataframe, the label is 1 when the string
  Ag is a member of the row's element list and 0 otherwise; nothing else enters the label,
  and there is one label per such row.
\<close>

theorem train_y_membership:
  "length (train_y df) = min 50000 (length df) \<and>
   (\<forall>i < min 50000 (length df).
      train_y df ! i = (if ''Ag'' \<in> set (Elements (df ! i)) then 1 else 0))"
  by (simp add: train_y_def min.commute)

theorem train_y_membership_witness:
  "train_y [\<lparr>Elements = [''Si'', ''Ag''], Spectra = [1::int]\<rparr>,
            \<lparr>Elements = [''Fe''], Spectra = [2]\<rparr>] ! 0 = 1 \<and>
   train_y [\<lparr>Elements = [''Si'', ''Ag''], Spectra = [1::int]\<rparr>,
            \<lparr>Elements = [''Fe''], Spectra = [2]\<rparr>] ! 1 = 0"
  using train_y_membership
    [of "[\<lparr>Elements = [''Si'', ''Ag''], Spectra = [1::int]\<rparr>,
          \<lparr>Elements = [''Fe''], Spectra = [2]\<rparr>]"]
  by simp

text \<open>
  C10: when every spectrum has 1000 points, the training input keeps each spectrum whole:
  row \<open>i\<close> of \<open>train_x\<close> is the entire \<open>Spectra\<close> entry of row \<open>i\<close> of the dataframe, its
  length is the \<open>input_dim\<close> that the first layer declares, and \<open>train_y\<close> at \<open>i\<close> is the
  label of the same row. Both arrays stop at the same 50000 rows, so a dataframe of at
  least 50000 rows gives the shapes (50000, 1000) and (50000).
\<close>

theorem full_spectrum_used:
  assumes "list_all (\<lambda>s. length (Spectra s) = 1000) df"
  shows "\<exists>xs ys. extract_training_data df = Inr (xs, ys) \<and>
           length xs = min 50000 (length df) \<and> length ys = min 50000 (length df) \<and>
           (50000 \<le> length df \<longrightarrow> length xs = 50000 \<and> length ys = 50000) \<and>
           (\<forall>i < min 50000 (length df).
              xs ! i = Spectra (df ! i) \<and> input_dim model = Some (length (xs ! i)) \<and>
              ys ! i = (if ''Ag'' \<in> set (Elements (df ! i)) then 1 else 0))"
proof -
  let ?xs = "take 50000 (map Spectra df)" and ?ys = "train_y df"
  have e: "extract_training_data df = Inr (?xs, ?ys)"
    using assms by (rule extract_training_data_succeeds)
  have lx: "length ?xs = min 50000 (length df)" by (simp add: min.commute)
  have ly: "length ?ys = min 50000 (length df)" by (rule length_train_y)
  have el: "\<forall>i < min 50000 (length df).
              ?xs ! i = Spectra (df ! i) \<and> input_dim model = Some (length (?xs ! i)) \<and>
              ?ys ! i = (if ''Ag'' \<in> set (Elements (df ! i)) then 1 else 0)"
  proof (intro allI impI)
    fix i assume i: "i < min 50000 (length df)"
    then have x: "?xs ! i = Spectra (df ! i)" by simp
    from i have "df ! i \<in> set df" by simp
    with assms have "length (Spectra (df ! i)) = 1000" by (simp add: list_all_iff)
    with x have d: "input_dim model = Some (length (?xs ! i))" by (simp add: model_def)
    from i have "?ys ! i = (if ''Ag'' \<in> set (Elements (df ! i)) then 1 else 0)"
      by (simp add: train_y_def)
    with x d show "?xs ! i = Spectra (df ! i) \<and> input_dim model = Some (length (?xs ! i)) \<and>
              ?ys ! i = (if ''Ag'' \<in> set (Elements (df ! i)) then 1 else 0)" by blast
  qed
  from lx ly have "50000 \<le> length df \<longrightarrow> length ?xs = 50000 \<and> length ?ys = 50000" by simp
  with e lx ly el show ?thesis by blast
qed

theorem full_spectrum_used_witness:
  "\<exists>xs ys. extract_training_data
              (replicate 50000 \<lparr>Elements = [''Ag''], Spectra = replicate 1000 (1::int)\<rparr>)
            = Inr (xs, ys) \<and>
           length xs = 50000 \<and> length ys = 50000 \<and>
           (\<forall>i < 50000. xs ! i = replicate 1000 1 \<and> input_dim model = Some (length (xs ! i)) \<and>
              ys ! i = 1)"
  using full_spectrum_used
    [of "replicate 50000 \<lparr>Elements = [''Ag''], Spectra = replicate 1000 (1::int)\<rparr>"]
  by (simp add: list_all_iff) blast

text \<open>
  C6: the cells read the two columns \<open>Elements\<close> and \<open>Spectra\<close>. On an input of the
  documented format (every spectrum 1000 positive numbers) the extraction succeeds and
  every row of \<open>train_x\<close> has the length that the network's \<open>input_dim\<close> declares. The
  format is relied on and not checked: spectra of any other common length, with any
  values, are extracted all the same, and spectra of unequal lengths fail only inside
  the library's array conversion.
\<close>

theorem input_shape_relied_on:
  "(well_formed_input df \<longrightarrow>
      (\<exists>xs ys. extract_training_data df = Inr (xs, ys) \<and>
         list_all (\<lambda>x. input_dim model = Some (length x)) xs)) \<and>
   (list_all (\<lambda>s. length (Spectra s) = n) df' \<longrightarrow>
      (\<exists>xs ys. extract_training_data df' = Inr (xs, ys) \<and>
         list_all (\<lambda>x. length x = n) xs \<and> xs = take 50000 (map Spectra df'))) \<and>
   (\<not> rectangular (map Spectra df'') \<longrightarrow> extract_training_data df'' = Inl ValueError)"
proof (intro conjI impI)
  assume w: "well_formed_input df"
  then have l: "list_all (\<lambda>s. length (Spectra s) = 1000) df"
    by (simp add: well_formed_input_def list_all_iff)
  have "list_all (\<lambda>x. input_dim model = Some (length x)) (take 50000 (map Spectra df))"
    using l by (auto simp: list_all_iff model_def dest!: in_set_takeD)
  with extract_training_data_succeeds [OF l]
  show "\<exists>xs ys. extract_training_data df = Inr (xs, ys) \<and>
         list_all (\<lambda>x. input_dim model = Some (length x)) xs" by blast
next
  assume l: "list_all (\<lambda>s. length (Spectra s) = n) df'"
  have "list_all (\<lambda>x. length x = n) (take 50000 (map Spectra df'))"
    using l by (auto simp: list_all_iff dest!: in_set_takeD)
  with extract_training_data_succeeds [OF l]
  show "\<exists>xs ys. extract_training_data df' = Inr (xs, ys) \<and>
         list_all (\<lambda>x. length x = n) xs \<and> xs = take 50000 (map Spectra df')" by blast
next
  assume "\<not> rectangular (map Spectra df'')"
  then show "extract_training_data df'' = Inl ValueError"
    by (simp add: extract_training_data_def train_x_def np_array_def)
qed

theorem input_shape_relied_on_witness:
  "(\<exists>xs ys. extract_training_data [\<lparr>Elements = [''Ag''], Spectra = replicate 1000 (1::real)\<rparr>]
              = Inr (xs, ys) \<and>
         list_all (\<lambda>x. input_dim model = Some (length x)) xs) \<and>
   (\<exists>xs ys. extract_training_data [\<lparr>Elements = [''Ag''], Spectra = [-1, 0::real]\<rparr>]
              = Inr (xs, ys) \<and>
         list_all (\<lambda>x. length x = 2) xs \<and> xs = [[-1, 0]]) \<and>
   extract_training_data df_ragged = Inl ValueError"
  using input_shape_relied_on
    [of "[\<lparr>Elements = [''Ag''], Spectra = replicate 1000 (1::real)\<rparr>]" 2
        "[\<lparr>Elements = [''Ag''], Spectra = [-1, 0::real]\<rparr>]" df_ragged]
  by (simp add: well_formed_input_def list_all_iff rectangular_def df_ragged_def)

lemma reader_local_colab_path:
  "reader_local (data_path True @ ''muon-data/ag-muon-data-tight.pkl'') = Inl FileNotFoundError"
  by (simp add: reader_local_def data_path_def colab_data_path_def)

lemma np_array_df_ragged: "np_array (map Spectra df_ragged) = Inl ValueError"
  by (simp add: np_array_def rectangular_def df_ragged_def)

lemma np_array_df3: "np_array (map Spectra df3) = Inr (map Spectra df3)"
  by (simp add: np_array_def rectangular_def df3_def)

text \<open>
  C7: the cells validate nothing and handle no error between loading the file and
  extracting the training data. An exception of the reader ends the run as that same
  exception; an exception of the array conversion is the result of \<open>train_x\<close>, of the
  extraction cell and of the preprocessing, unchanged; and whenever the conversion
  succeeds, \<open>train_x\<close> is the \<open>Spectra\<close> column cut to its first 50000 rows, whatever
  the lengths and values of the spectra.
\<close>

theorem errors_propagate_unhandled:
  "(pd_read_pickle (data_path colab @ ''muon-data/ag-muon-data-tight.pkl'') = Inl e \<longrightarrow>
      notebook G pd_read_pickle colab g0 = Inl e) \<and>
   (np_array (map Spectra df) = Inl e' \<longrightarrow>
      train_x df = Inl e' \<and> extract_training_data df = Inl e' \<and> preprocess G df g = Inl e') \<and>
   (np_array (map Spectra df') = Inr a \<longrightarrow>
      train_x df' = Inr (take 50000 (map Spectra df')))"
  by (auto simp: notebook_def read_data_def train_x_def extract_training_data_def preprocess_def
        dest: np_array_Inr)

theorem errors_propagate_unhandled_witness:
  "notebook counter_gen reader_local True 0 = Inl FileNotFoundError \<and>
   train_x df_ragged = Inl ValueError \<and>
   extract_training_data df_ragged = Inl ValueError \<and>
   preprocess counter_gen df_ragged 0 = Inl ValueError \<and>
   train_x df3 = Inr (take 50000 (map Spectra df3))"
  using errors_propagate_unhandled
    [where pd_read_pickle = reader_local and colab = True and e = FileNotFoundError
       and G = counter_gen and ?g0.0 = 0 and df = df_ragged and e' = ValueError and g = 0
       and df' = df3 and a = "map Spectra df3"]
  by (simp add: reader_local_colab_path np_array_df_ragged np_array_df3)

section \<open>The downsampling cell\<close>

lemma fancy_index_Inr:
  "fancy_index a ids = Inr r \<Longrightarrow> r = map (\<lambda>j. a ! j) ids \<and> (\<forall>j \<in> set ids. j < length a)"
  by (auto simp: fancy_index_def list_all_iff split: if_splits)

lemma downsample_Inr:
  assumes "downsample G xs ys g = Inr (b, g')"
  shows "\<exists>g1. np_random_choice G (id_no_Ag ys) (length (id_with_Ag ys)) g
               = Inr (id_no_Ag_downsample b, g1) \<and>
              np_random_shuffle G (id_with_Ag ys @ id_no_Ag_downsample b) g1
               = (id_downsample b, g') \<and>
              fancy_index xs (id_downsample b) = Inr (train_x_balanced b) \<and>
              fancy_index ys (id_downsample b) = Inr (train_y_balanced b)"
  using assms unfolding downsample_def
  by (auto split: sum.splits prod.splits)

lemma id_with_Ag_set: "set (id_with_Ag ys) = {i. i < length ys \<and> ys ! i = 1}"
  by (simp add: id_with_Ag_def set_np_where)

lemma id_no_Ag_set: "set (id_no_Ag ys) = {i. i < length ys \<and> ys ! i = 0}"
  by (simp add: id_no_Ag_def set_np_where)

lemma id_no_Ag_nonempty: "0 \<in> set ys \<Longrightarrow> id_no_Ag ys \<noteq> []"
proof -
  assume "0 \<in> set ys"
  then obtain i where "i < length ys" "ys ! i = 0" by (auto simp: in_set_conv_nth)
  then have "i \<in> set (id_no_Ag ys)" by (simp add: id_no_Ag_set)
  then show ?thesis by auto
qed

lemma downsample_ids:
  assumes "downsample G xs ys g = Inr (b, g')"
  shows "length (id_no_Ag_downsample b) = length (id_with_Ag ys)"
    and "set (id_no_Ag_downsample b) \<subseteq> set (id_no_Ag ys)"
    and "mset (id_downsample b) = mset (id_with_Ag ys @ id_no_Ag_downsample b)"
    and "train_x_balanced b = map (\<lambda>j. xs ! j) (id_downsample b)"
    and "train_y_balanced b = map (\<lambda>j. ys ! j) (id_downsample b)"
    and "\<forall>j \<in> set (id_downsample b). j < length xs \<and> j < length ys"
proof -
  from downsample_Inr [OF assms] obtain g1 where
    c: "np_random_choice G (id_no_Ag ys) (length (id_with_Ag ys)) g
          = Inr (id_no_Ag_downsample b, g1)" and
    s: "np_random_shuffle G (id_with_Ag ys @ id_no_Ag_downsample b) g1 = (id_downsample b, g')" and
    fx: "fancy_index xs (id_downsample b) = Inr (train_x_balanced b)" and
    fy: "fancy_index ys (id_downsample b) = Inr (train_y_balanced b)"
    by blast
  from np_random_choice_Inr [OF c]
  show "length (id_no_Ag_downsample b) = length (id_with_Ag ys)"
    and "set (id_no_Ag_downsample b) \<subseteq> set (id_no_Ag ys)" by simp_all
  from np_random_shuffle_mset [of G "id_with_Ag ys @ id_no_Ag_downsample b" g1] s
  show "mset (id_downsample b) = mset (id_with_Ag ys @ id_no_Ag_downsample b)" by simp
  from fancy_index_Inr [OF fx] fancy_index_Inr [OF fy]
  show "train_x_balanced b = map (\<lambda>j. xs ! j) (id_downsample b)"
    and "train_y_balanced b = map (\<lambda>j. ys ! j) (id_downsample b)"
    and "\<forall>j \<in> set (id_downsample b). j < length xs \<and> j < length ys" by simp_all
qed

lemma downsample_succeeds:
  assumes len: "length ys \<le> length xs" and ne: "id_no_Ag ys \<noteq> [] \<or> id_with_Ag ys = []"
  shows "\<exists>b g'. downsample G xs ys g = Inr (b, g')"
proof -
  from ne have "id_no_Ag ys \<noteq> [] \<or> length (id_with_Ag ys) = 0" by simp
  from np_random_choice_succeeds [OF this, of G g] obtain c g1 where
    c: "np_random_choice G (id_no_Ag ys) (length (id_with_Ag ys)) g = Inr (c, g1)" by blast
  obtain ids g2 where s: "np_random_shuffle G (id_with_Ag ys @ c) g1 = (ids, g2)"
    by (cases "np_random_shuffle G (id_with_Ag ys @ c) g1")
  from np_random_shuffle_mset [of G "id_with_Ag ys @ c" g1] s
  have "mset ids = mset (id_with_Ag ys @ c)" by simp
  then have "set ids = set (id_with_Ag ys @ c)" by (rule mset_eq_setD)
  moreover from np_random_choice_Inr [OF c] have "set c \<subseteq> set (id_no_Ag ys)" by simp
  ultimately have "\<forall>j \<in> set ids. j < length ys"
    by (auto simp: id_with_Ag_set id_no_Ag_set)
  with len have "\<forall>j \<in> set ids. j < length ys \<and> j < length xs" by auto
  with c s show ?thesis by (simp add: downsample_def fancy_index_def list_all_iff)
qed

lemma length_filter_mset_eq:
  "mset as = mset bs \<Longrightarrow> length (filter P as) = length (filter P bs)"
  by (metis mset_filter size_mset)

lemma filter_map_all: "\<forall>i \<in> set l. f i = v \<Longrightarrow> filter (\<lambda>y. y = v) (map f l) = map f l"
  by (induction l) auto

lemma filter_map_none: "\<forall>i \<in> set l. f i \<noteq> v \<Longrightarrow> filter (\<lambda>y. y = v) (map f l) = []"
  by (induction l) auto

lemma downsample_counts:
  assumes "downsample G xs ys g = Inr (b, g')"
  shows "length (filter (\<lambda>y. y = 1) (train_y_balanced b)) = length (id_with_Ag ys)"
    and "length (filter (\<lambda>y. y = 0) (train_y_balanced b)) = length (id_with_Ag ys)"
proof -
  let ?f = "\<lambda>j. ys ! j"
  let ?w = "id_with_Ag ys" and ?c = "id_no_Ag_downsample b"
  note d = downsample_ids [OF assms]
  from d(3) have "mset (map ?f (id_downsample b)) = mset (map ?f (?w @ ?c))" by simp
  with d(5) have m: "mset (train_y_balanced b) = mset (map ?f ?w @ map ?f ?c)" by simp
  have w1: "\<forall>i \<in> set ?w. ?f i = 1" by (simp add: id_with_Ag_set)
  from d(2) have c0: "\<forall>i \<in> set ?c. ?f i = 0" by (auto simp: id_no_Ag_set)
  from w1 have w0: "\<forall>i \<in> set ?w. ?f i \<noteq> 0" by simp
  from c0 have c1: "\<forall>i \<in> set ?c. ?f i \<noteq> 1" by simp
  from length_filter_mset_eq [OF m, of "\<lambda>y. y = 1"]
  show "length (filter (\<lambda>y. y = 1) (train_y_balanced b)) = length ?w"
    by (simp add: filter_map_all [OF w1] filter_map_none [OF c1])
  from length_filter_mset_eq [OF m, of "\<lambda>y. y = 0"]
  show "length (filter (\<lambda>y. y = 0) (train_y_balanced b)) = length ?w"
    by (simp add: filter_map_all [OF c0] filter_map_none [OF w0] d(1))
qed

lemma downsample_steps:
  assumes "np_random_choice G (id_no_Ag ys) (length (id_with_Ag ys)) g = Inr (c, g1)"
    and "np_random_shuffle G (id_with_Ag ys @ c) g1 = (ids, g2)"
    and "fancy_index xs ids = Inr xb"
    and "fancy_index ys ids = Inr yb"
  shows "downsample G xs ys g =
           Inr (\<lparr>id_no_Ag_downsample = c, id_downsample = ids,
                 train_x_balanced = xb, train_y_balanced = yb\<rparr>, g2)"
  using assms by (simp add: downsample_def)












text \<open>
  C2: for label and input arrays of one length, with at least one label 0 and one label
  1, the cell succeeds and the balanced labels hold as many entries 0 as entries 1,
  each count being the number of labels 1 in \<open>train_y\<close>, which is not zero.
\<close>

theorem balanced_counts:
  assumes "length xs = length ys" and "0 \<in> set ys" and "1 \<in> set ys"
  shows "\<exists>b g'. downsample G xs ys g = Inr (b, g') \<and>
           length (filter (\<lambda>y. y = 0) (train_y_balanced b)) = length (filter (\<lambda>y. y = 1) ys) \<and>
           length (filter (\<lambda>y. y = 1) (train_y_balanced b)) = length (filter (\<lambda>y. y = 1) ys) \<and>
           0 < length (filter (\<lambda>y. y = 1) ys)"
proof -
  from assms(1) have "length ys \<le> length xs" by simp
  moreover from assms(2) have "id_no_Ag ys \<noteq> [] \<or> id_with_Ag ys = []"
    by (simp add: id_no_Ag_nonempty)
  ultimately obtain b g' where r: "downsample G xs ys g = Inr (b, g')"
    using downsample_succeeds [of ys xs G g] by blast
  have n: "length (id_with_Ag ys) = length (filter (\<lambda>y. y = 1) ys)"
    by (simp add: id_with_Ag_def length_np_where)
  from assms(3) have "filter (\<lambda>y. y = 1) ys \<noteq> []" by (simp add: filter_empty_conv)
  then have "0 < length (filter (\<lambda>y. y = 1) ys)" by simp
  with r downsample_counts [OF r] n show ?thesis by auto
qed

theorem balanced_counts_witness:
  "\<exists>b g'. downsample counter_gen [[1], [2], [3], [4], [5::int]] [0, 1, 0, 0, 1] 5 = Inr (b, g') \<and>
           length (filter (\<lambda>y. y = 0) (train_y_balanced b)) =
             length (filter (\<lambda>y. y = 1) [0, 1, 0, 0, 1::int]) \<and>
           length (filter (\<lambda>y. y = 1) (train_y_balanced b)) =
             length (filter (\<lambda>y. y = 1) [0, 1, 0, 0, 1::int])"
  using balanced_counts [of "[[1], [2], [3], [4], [5::int]]" "[0, 1, 0, 0, 1]" counter_gen 5]
  by simp

section \<open>From the dataframe to the balanced training set\<close>

lemma preprocess_succeeds:
  assumes "list_all (\<lambda>s. length (Spectra s) = n) df" and "0 \<in> set (train_y df)"
  shows "\<exists>b g'. preprocess G df g = Inr (b, g')"
proof -
  let ?xs = "take 50000 (map Spectra df)"
  have e: "extract_training_data df = Inr (?xs, train_y df)"
    using assms(1) by (rule extract_training_data_succeeds)
  have "length (train_y df) \<le> length ?xs" by (simp add: train_y_def)
  moreover from assms(2) have "id_no_Ag (train_y df) \<noteq> [] \<or> id_with_Ag (train_y df) = []"
    by (simp add: id_no_Ag_nonempty)
  ultimately have "\<exists>b g'. downsample G ?xs (train_y df) g = Inr (b, g')"
    by (rule downsample_succeeds)
  with e show ?thesis by (simp add: preprocess_def)
qed

text \<open>The cells on the small dataset, with the counting generator.\<close>

lemma extract_df3:
  "extract_training_data df3 = Inr ([[10, 11], [20, 21], [30, 31]], [0, 1, 1])"
  by (simp add: extract_training_data_def train_x_def train_y_def np_array_def rectangular_def
        df3_def)

lemma fancy_index_x3:
  "fancy_index [[10, 11], [20, 21], [30, 31::int]] [2, 0, 1, 0]
     = Inr [[30, 31], [10, 11], [20, 21], [10, 11]]"
  by code_simp

lemma fancy_index_y3: "fancy_index [0, 1, 1::int] [2, 0, 1, 0] = Inr [1, 0, 1, 0]"
  by code_simp

lemma preprocess_df3: "preprocess counter_gen df3 0 = Inr (balanced3, 5)"
proof -
  have c: "np_random_choice counter_gen (id_no_Ag [0, 1, 1]) (length (id_with_Ag [0, 1, 1])) 0
             = Inr ([0, 0], 2)"
    by code_simp
  have s: "np_random_shuffle counter_gen (id_with_Ag [0, 1, 1] @ [0, 0]) 2 = ([2, 0, 1, 0], 5)"
    by code_simp
  from downsample_steps [OF c s fancy_index_x3 fancy_index_y3]
  show ?thesis by (simp add: preprocess_def extract_df3 balanced3_def)
qed

text \<open>
  The draw is with replacement: the only index of label 0 is drawn twice here, to match
  the two samples of label 1.
\<close>

lemma draws_can_repeat:
  "preprocess counter_gen df3 0 = Inr (b, g') \<Longrightarrow> \<not> distinct (id_no_Ag_downsample b)"
  by (auto simp: preprocess_df3 balanced3_def)

lemma preprocess_df3_after_plots: "preprocess counter_gen df3 12 = Inr (balanced3, 17)"
proof -
  have c: "np_random_choice counter_gen (id_no_Ag [0, 1, 1]) (length (id_with_Ag [0, 1, 1])) 12
             = Inr ([0, 0], 14)"
    by code_simp
  have s: "np_random_shuffle counter_gen (id_with_Ag [0, 1, 1] @ [0, 0]) 14 = ([2, 0, 1, 0], 17)"
    by code_simp
  from downsample_steps [OF c s fancy_index_x3 fancy_index_y3]
  show ?thesis by (simp add: preprocess_def extract_df3 balanced3_def)
qed

lemma preprocess_df3_other_state:
  "preprocess counter_gen df3 2 =
     Inr (\<lparr>id_no_Ag_downsample = [0, 0], id_downsample = [2, 0, 0, 1],
           train_x_balanced = [[30, 31], [10, 11], [10, 11], [20, 21]],
           train_y_balanced = [1, 0, 0, 1]\<rparr>, 7)"
proof -
  have c: "np_random_choice counter_gen (id_no_Ag [0, 1, 1]) (length (id_with_Ag [0, 1, 1])) 2
             = Inr ([0, 0], 4)"
    by code_simp
  have s: "np_random_shuffle counter_gen (id_with_Ag [0, 1, 1] @ [0, 0]) 4 = ([2, 0, 0, 1], 7)"
    by code_simp
  have fx: "fancy_index [[10, 11], [20, 21], [30, 31::int]] [2, 0, 0, 1]
              = Inr [[30, 31], [10, 11], [10, 11], [20, 21]]"
    by code_simp
  have fy: "fancy_index [0, 1, 1::int] [2, 0, 0, 1] = Inr [1, 0, 0, 1]"
    by code_simp
  from downsample_steps [OF c s fx fy]
  show ?thesis by (simp add: preprocess_def extract_df3)
qed

text \<open>
  C8: whenever the two cells succeed, position \<open>i\<close> of the balanced arrays holds the
  spectrum and the label of one and the same sample, the row \<open>id_downsample[i]\<close> of the
  dataframe: the balanced input is \<open>train_x\<close> there, the balanced label is \<open>train_y\<close> there,
  and both were derived from that row.
\<close>

theorem pairing_preserved:
  assumes "preprocess G df g = Inr (b, g')"
  shows "\<exists>xs ys. extract_training_data df = Inr (xs, ys) \<and>
           length (train_x_balanced b) = length (id_downsample b) \<and>
           length (train_y_balanced b) = length (id_downsample b) \<and>
           (\<forall>i < length (id_downsample b).
              id_downsample b ! i < length df \<and>
              train_x_balanced b ! i = xs ! (id_downsample b ! i) \<and>
              train_y_balanced b ! i = ys ! (id_downsample b ! i) \<and>
              xs ! (id_downsample b ! i) = Spectra (df ! (id_downsample b ! i)) \<and>
              ys ! (id_downsample b ! i) =
                (if ''Ag'' \<in> set (Elements (df ! (id_downsample b ! i))) then 1 else 0))"
proof -
  from assms obtain xs ys where e: "extract_training_data df = Inr (xs, ys)"
    and d: "downsample G xs ys g = Inr (b, g')"
    by (auto simp: preprocess_def split: sum.splits)
  note x = extract_training_data_Inr [OF e]
  note i = downsample_ids [OF d]
  let ?ids = "id_downsample b"
  have "\<forall>i < length ?ids.
              ?ids ! i < length df \<and>
              train_x_balanced b ! i = xs ! (?ids ! i) \<and>
              train_y_balanced b ! i = ys ! (?ids ! i) \<and>
              xs ! (?ids ! i) = Spectra (df ! (?ids ! i)) \<and>
              ys ! (?ids ! i) = (if ''Ag'' \<in> set (Elements (df ! (?ids ! i))) then 1 else 0)"
  proof (intro allI impI)
    fix k assume k: "k < length ?ids"
    let ?j = "?ids ! k"
    from k have "?j \<in> set ?ids" by simp
    with i(6) have jx: "?j < length xs" and jy: "?j < length ys" by auto
    from jx x(1) have jd: "?j < length df" and j5: "?j < 50000" by simp_all
    from jd j5 x(1) have sx: "xs ! ?j = Spectra (df ! ?j)" by simp
    from jd j5 x(2) have sy: "ys ! ?j = (if ''Ag'' \<in> set (Elements (df ! ?j)) then 1 else 0)"
      by (simp add: train_y_def)
    from k i(4) have bx: "train_x_balanced b ! k = xs ! ?j" by simp
    from k i(5) have "train_y_balanced b ! k = ys ! ?j" by simp
    with jd sx sy bx show "?j < length df \<and>
              train_x_balanced b ! k = xs ! ?j \<and>
              train_y_balanced b ! k = ys ! ?j \<and>
              xs ! ?j = Spectra (df ! ?j) \<and>
              ys ! ?j = (if ''Ag'' \<in> set (Elements (df ! ?j)) then 1 else 0)" by blast
  qed
  moreover from i(4) have "length (train_x_balanced b) = length ?ids" by simp
  moreover from i(5) have "length (train_y_balanced b) = length ?ids" by simp
  ultimately show ?thesis using e by blast
qed

theorem pairing_preserved_witness:
  "preprocess counter_gen df3 0 = Inr (balanced3, 5) \<and>
   (\<exists>xs ys. extract_training_data df3 = Inr (xs, ys) \<and>
           length (train_x_balanced balanced3) = length (id_downsample balanced3) \<and>
           length (train_y_balanced balanced3) = length (id_downsample balanced3) \<and>
           (\<forall>i < length (id_downsample balanced3).
              id_downsample balanced3 ! i < length df3 \<and>
              train_x_balanced balanced3 ! i = xs ! (id_downsample balanced3 ! i) \<and>
              train_y_balanced balanced3 ! i = ys ! (id_downsample balanced3 ! i) \<and>
              xs ! (id_downsample balanced3 ! i) = Spectra (df3 ! (id_downsample balanced3 ! i)) \<and>
              ys ! (id_downsample balanced3 ! i) =
                (if ''Ag'' \<in> set (Elements (df3 ! (id_downsample balanced3 ! i))) then 1 else 0)))"
  by (rule conjI [OF preprocess_df3 pairing_preserved [OF preprocess_df3]])

section \<open>Runs of the whole notebook\<close>

lemma read_reader_local: "read_data reader_local False = Inr df3"
  by (simp add: read_data_def reader_local_def data_path_def df3_def)

lemma read_reader_colab: "read_data reader_colab True = Inr df3"
  by (simp add: read_data_def reader_colab_def data_path_def colab_data_path_def df3_def)

lemma conditions_df3:
  "conditions df3 = [(''no Ag'', [0]), (''pure Ag'', [1]), (''Ag-Si binary'', [2])]"
  by code_simp

lemma plot_conditions_df3: "plot_conditions counter_gen (conditions df3) 0 = Inr 12"
  unfolding conditions_df3 by code_simp

lemma notebook_reader_local: "notebook counter_gen reader_local False 7 = Inr (balanced3, 17)"
  by (simp add: notebook_def read_reader_local counter_gen_def [THEN arg_cong, of seed_state]
        plot_conditions_df3 preprocess_df3_after_plots)

text \<open>
  Without the seeding of cell 1 the outcome would depend on the state of the generator:
  the same dataframe gives different index arrays from different states.
\<close>

lemma unseeded_runs_differ: "preprocess counter_gen df3 0 \<noteq> preprocess counter_gen df3 2"
  by (simp add: preprocess_df3 preprocess_df3_other_state balanced3_def)

text \<open>
  C9: two runs of the notebook that read the same dataframe give the same result, the
  same \<open>id_downsample\<close>, \<open>train_x_balanced\<close> and \<open>train_y_balanced\<close> or the same exception,
  whatever state the generator had when each run started and wherever the file was
  found: cell 1 puts the generator into the state of seed 0 before any draw.
\<close>

theorem notebook_deterministic:
  assumes "read_data r1 c1 = Inr df" and "read_data r2 c2 = Inr df"
  shows "notebook G r1 c1 g0 = notebook G r2 c2 g0'"
  using assms by (simp add: notebook_def)

theorem notebook_deterministic_witness:
  "notebook counter_gen reader_local False 7 = notebook counter_gen reader_colab True 99 \<and>
   notebook counter_gen reader_local False 7 = Inr (balanced3, 17)"
  by (rule conjI
        [OF notebook_deterministic [OF read_reader_local read_reader_colab] notebook_reader_local])

section \<open>The network and the callback\<close>

text \<open>
  C5: the model is a stack of exactly five Dense layers of widths 64, 32, 16, 8 and 1,
  the first four with ReLU and the last with sigmoid activation. It is a constant of the
  notebook; the later answers repeat it, the last two with one Dropout layer put after
  the first Dense layer.
\<close>

theorem model_topology:
  "length model = 5 \<and> list_all is_Dense model \<and>
   map units model = [Some 64, Some 32, Some 16, Some 8, Some 1] \<and>
   map activation_of model = [Some relu, Some relu, Some relu, Some relu, Some sigmoid] \<and>
   model_balanced = model \<and>
   filter is_Dense model_dropout = model \<and>
   filter is_Dense model_early_stopping = model"
  by (simp add: model_def model_balanced_def model_dropout_def model_early_stopping_def)

text \<open>
  C4, as the code has it: the callback passed to \<open>fit\<close> waits 50 epochs and restores the
  best weights, but the quantity it monitors is \<open>loss\<close>, the loss on the training data,
  which is not a metric of the validation split.
\<close>

theorem callback_monitors_training_loss:
  "monitor callback = ''loss'' \<and> \<not> is_validation_metric (monitor callback) \<and>
   patience callback = 50 \<and> restore_best_weights callback"
  by (simp add: callback_def is_validation_metric_def)

text \<open>
  The effect on a run: on a history whose validation loss never improves after the first
  epoch, the notebook's callback lets all sixty epochs run, because the training loss it
  watches keeps improving; the same callback watching \<open>val_loss\<close> stops after 51 epochs.
\<close>

lemma epochs_run_improving:
  assumes "map (\<lambda>lg. map_of lg (monitor cb)) ls = map Some vs"
    and "sorted_wrt (\<lambda>a b. b < a) vs"
    and "\<forall>v \<in> set vs. is_improvement v (best st)"
    and "\<not> stop_training st"
  shows "epochs_run cb st ls = length ls"
  using assms
proof (induction ls arbitrary: st vs)
  case Nil
  then show ?case by simp
next
  case (Cons lg rest)
  from Cons.prems(1) obtain v vs' where vs: "vs = v # vs'"
    and v: "map_of lg (monitor cb) = Some v"
    and r: "map (\<lambda>lg. map_of lg (monitor cb)) rest = map Some vs'"
    by (cases vs) auto
  from Cons.prems(3) vs have imp: "is_improvement v (best st)" by simp
  let ?st = "st\<lparr>wait := 0, best := Some v\<rparr>"
  from v imp have st': "on_epoch_end cb st lg = ?st" by (simp add: on_epoch_end_def)
  from Cons.prems(2) vs have s: "sorted_wrt (\<lambda>a b. b < a) vs'" and lt: "\<forall>w \<in> set vs'. w < v"
    by simp_all
  from lt have i: "\<forall>w \<in> set vs'. is_improvement w (best ?st)" by (simp add: is_improvement_def)
  from Cons.prems(4) have n: "\<not> stop_training ?st" by simp
  from Cons.IH [OF r s i n] st' n show ?case by simp
qed

lemma epochs_run_stagnating:
  assumes "\<forall>lg \<in> set ls. map_of lg (monitor cb) = Some c"
    and "best st = Some c'" and "c' \<le> c"
    and "\<not> stop_training st"
    and "wait st < patience cb"
    and "patience cb - wait st \<le> length ls"
  shows "epochs_run cb st ls = patience cb - wait st"
  using assms
proof (induction ls arbitrary: st)
  case Nil
  then show ?case by simp
next
  case (Cons lg rest)
  from Cons.prems(1) have v: "map_of lg (monitor cb) = Some c" by simp
  from Cons.prems(2,3) have ni: "\<not> is_improvement c (best st)" by (simp add: is_improvement_def)
  show ?case
  proof (cases "patience cb \<le> wait st + 1")
    case True
    with v ni have "stop_training (on_epoch_end cb st lg)" by (simp add: on_epoch_end_def)
    with True Cons.prems(5) show ?thesis by simp
  next
    case False
    let ?st = "st\<lparr>wait := wait st + 1\<rparr>"
    from False v ni have st': "on_epoch_end cb st lg = ?st" by (simp add: on_epoch_end_def)
    from Cons.prems(1) have a: "\<forall>lg \<in> set rest. map_of lg (monitor cb) = Some c" by simp
    from Cons.prems(2) have b: "best ?st = Some c'" by simp
    from Cons.prems(4) have n: "\<not> stop_training ?st" by simp
    from False have w: "wait ?st < patience cb" by simp
    from Cons.prems(6) False have l: "patience cb - wait ?st \<le> length rest" by simp
    from Cons.IH [OF a b Cons.prems(3) n w l] st' n False show ?thesis by simp
  qed
qed

lemma stagnating_validation_not_stopped:
  "epochs_run callback on_train_begin stagnating_history = 60"
proof -
  let ?vs = "map (\<lambda>k. (60 - real k) / 60) [0..<60]"
  have m: "map (\<lambda>lg. map_of lg (monitor callback)) stagnating_history = map Some ?vs"
    by (simp add: stagnating_history_def callback_def)
  have s: "sorted_wrt (\<lambda>a b. b < a) ?vs"
    by (simp add: sorted_wrt_iff_nth_less divide_strict_right_mono)
  have i: "\<forall>v \<in> set ?vs. is_improvement v (best on_train_begin)"
    by (simp add: is_improvement_def on_train_begin_def)
  have n: "\<not> stop_training on_train_begin" by (simp add: on_train_begin_def)
  from epochs_run_improving [OF m s i n] show ?thesis by (simp add: stagnating_history_def)
qed

lemma validation_monitor_would_stop:
  "epochs_run (callback\<lparr>monitor := ''val_loss''\<rparr>) on_train_begin stagnating_history = 51"
proof -
  let ?cb = "callback\<lparr>monitor := ''val_loss''\<rparr>"
  let ?f = "\<lambda>k. [(''loss'', (60 - real k) / 60), (''val_loss'', 1::real)]"
  let ?st = "on_train_begin\<lparr>wait := 0, best := Some 1\<rparr>"
  have h: "stagnating_history = ?f 0 # map ?f [1..<60]"
    by (simp add: stagnating_history_def upt_conv_Cons)
  have first: "on_epoch_end ?cb on_train_begin (?f 0) = ?st"
    by (simp add: on_epoch_end_def is_improvement_def on_train_begin_def)
  have a: "\<forall>lg \<in> set (map ?f [1..<60]). map_of lg (monitor ?cb) = Some 1" by simp
  have b: "best ?st = Some 1" by simp
  have n: "\<not> stop_training ?st" by (simp add: on_train_begin_def)
  have w: "wait ?st < patience ?cb" by (simp add: callback_def)
  have l: "patience ?cb - wait ?st \<le> length (map ?f [1..<60])" by (simp add: callback_def)
  from epochs_run_stagnating [OF a b order_refl n w l]
  have e: "epochs_run ?cb ?st (map ?f [1..<60]) = 50" by (simp add: callback_def)
  have "epochs_run ?cb on_train_begin stagnating_history
          = epochs_run ?cb on_train_begin (?f 0 # map ?f [1..<60])"
    by (simp only: h)
  also have "\<dots> = Suc (epochs_run ?cb ?st (map ?f [1..<60]))"
    using n by (simp only: epochs_run.simps Let_def first if_False)
  also have "\<dots> = 51" by (simp only: e)
  finally show ?thesis .
qed

end
